theory Spec2Isabelle
  imports Complex_Main
begin

section \<open>TaskQuest: the pet hibernation system (taskquest-pet.js)\<close>

text \<open>
  The script keeps two globals, \<open>gameData\<close> and \<open>tasks\<close>, and every function mutates
  them in place. Here each function takes the pair (a \<open>world\<close>) and returns the
  new one. Conventions of the embedding:
  \<^item> JavaScript numbers that the script only ever adds integers to (level, xp, streak,
    counters, millisecond timestamps) are \<open>int\<close>; the three pet stats receive
    fractions of elapsed time and are \<open>rat\<close> (exact arithmetic in place of IEEE
    doubles; \<open>Math.min\<close> and \<open>Math.max\<close> are \<open>min\<close> and \<open>max\<close>).
  \<^item> \<open>Date.now()\<close> is the parameter \<open>now\<close> of the handler that reads it; one handler
    runs at one instant.
  \<^item> The time zone of the browser is a parameter \<open>tz\<close>: the UTC offset, in ms, in force at
    an instant (local time is UTC plus the offset; it changes at a daylight-saving
    switch). A date string (\<open>toDateString\<close>) is the number of its local calendar day,
    counted from 1 January 1970.
  \<^item> Calls into the page (celebration popup, sounds, confetti, rendering, storage) are
    appended to the \<open>events\<close> trace in call order. Style changes on DOM elements and
    timers whose callbacks only touch the DOM are left out; the page's elements are
    taken to exist. Emoji of titles and table rows are left out.
  \<^item> A read of a property of \<open>undefined\<close> is the error \<open>TypeError\<close>.
\<close>

subsection \<open>Data\<close>

record gameData =
  level :: int
  xp :: int
  totalXP :: int
  streak :: int
  lastCompletedDate :: "int option"
  totalCompleted :: int
  achievements :: "string set"
  soundEnabled :: bool
  petHappiness :: rat
  petEnergy :: rat
  petHunger :: rat
  petStage :: int
  petLastFed :: int
  petLastPet :: int
  petHibernating :: bool
  hibernationStartTime :: "int option"
  petLastUpdate :: int

record task =
  task_id :: int
  task_text :: string
  priority :: string
  completed :: bool
  task_xp :: int

datatype sound = Snd_xp | Snd_levelup | Snd_achievement | Snd_pet | Snd_evolution | Snd_hibernate

datatype celebration =
    PetHibernatingPopup
  | PetAwakenedPopup
  | PetIsSleepingPopup
  | EvolutionPopup string
  | MegaLevelUpPopup int
  | LevelUpPopup int
  | AchievementUnlockedPopup string

datatype event =
    ShowCelebration celebration
  | PlaySound sound
  | CreateHearts
  | CreateBlueHearts
  | CreateConfetti
  | ShowFloatingXP int
  | UpdatePetDisplay
  | UpdatePlayerStats
  | RenderAchievements
  | RenderTasks
  | SaveData
  | ScheduleTaskRemoval int

record world =
  gd :: gameData
  tasks :: "task list"
  events :: "event list"

datatype error = TypeError

definition emit :: "event list \<Rightarrow> world \<Rightarrow> world" where
  "emit es w = w\<lparr>events := events w @ es\<rparr>"

text \<open>The default object of the \<open>gameData\<close> declaration, created at time \<open>now\<close>.\<close>

definition defaultGameData :: "int \<Rightarrow> gameData" where
  "defaultGameData now =
     \<lparr>level = 1, xp = 0, totalXP = 0, streak = 0, lastCompletedDate = None,
      totalCompleted = 0, achievements = {}, soundEnabled = True,
      petHappiness = 50, petEnergy = 75, petHunger = 30, petStage = 0,
      petLastFed = now, petLastPet = now,
      petHibernating = False, hibernationStartTime = None, petLastUpdate = now\<rparr>"

definition defaultWorld :: "int \<Rightarrow> world" where
  "defaultWorld now = \<lparr>gd = defaultGameData now, tasks = [], events = []\<rparr>"

subsection \<open>Pet evolution table\<close>

record evolution =
  stage :: int
  name :: string
  mood :: string
  minLevel :: int

definition petEvolutions :: "evolution list" where
  "petEvolutions =
    [\<lparr>stage = 0, name = ''Mysterious Egg'', mood = ''Waiting to hatch...'', minLevel = 1\<rparr>,
     \<lparr>stage = 1, name = ''Baby Chick'', mood = ''Chirp chirp!'', minLevel = 2\<rparr>,
     \<lparr>stage = 2, name = ''Young Bird'', mood = ''Feeling playful!'', minLevel = 5\<rparr>,
     \<lparr>stage = 3, name = ''Teen Bird'', mood = ''Getting stronger!'', minLevel = 10\<rparr>,
     \<lparr>stage = 4, name = ''Mighty Eagle'', mood = ''Soaring high!'', minLevel = 15\<rparr>,
     \<lparr>stage = 5, name = ''Phoenix Master'', mood = ''Maximum power!'', minLevel = 20\<rparr>,
     \<lparr>stage = 6, name = ''Cosmic Phoenix'', mood = ''Transcendent!'', minLevel = 25\<rparr>]"

text \<open>
  \<open>getPetEvolution\<close> walks the table from its last row down to the first and returns the
  first row whose \<open>minLevel\<close> the level reaches; the first row is the fallback.
\<close>

definition getPetEvolution :: "gameData \<Rightarrow> evolution" where
  "getPetEvolution g =
     (case find (\<lambda>e. level g \<ge> minLevel e) (rev petEvolutions) of
        Some e \<Rightarrow> e
      | None \<Rightarrow> hd petEvolutions)"

subsection \<open>Hibernation\<close>

definition enterHibernation :: "int \<Rightarrow> world \<Rightarrow> world" where
  "enterHibernation now w =
     emit [ShowCelebration PetHibernatingPopup, PlaySound Snd_hibernate, UpdatePetDisplay, SaveData]
       (w\<lparr>gd := (gd w)\<lparr>petHibernating := True,
                        hibernationStartTime := Some now,
                        petHappiness := max 0 (petHappiness (gd w) - 30)\<rparr>\<rparr>)"

definition wakeFromHibernation :: "world \<Rightarrow> world" where
  "wakeFromHibernation w =
     emit [ShowCelebration PetAwakenedPopup, CreateHearts, CreateConfetti, PlaySound Snd_levelup,
           UpdatePetDisplay, SaveData]
       (w\<lparr>gd := (gd w)\<lparr>petHibernating := False,
                        petHappiness := min 100 (petHappiness (gd w) + 20)\<rparr>\<rparr>)"

definition checkHibernation :: "int \<Rightarrow> world \<Rightarrow> world" where
  "checkHibernation now w =
     (let w1 = (if petEnergy (gd w) \<le> 0 \<and> \<not> petHibernating (gd w)
                then enterHibernation now w else w)
      in if petEnergy (gd w1) \<ge> 20 \<and> petHibernating (gd w1)
         then wakeFromHibernation w1 else w1)"

subsection \<open>Pet interactions\<close>

definition petPet :: "int \<Rightarrow> world \<Rightarrow> world" where
  "petPet now w =
     (let timeSinceLastPet = now - petLastPet (gd w)
      in if timeSinceLastPet < 10000 then w
         else
           (let g = (gd w)\<lparr>petLastPet := now\<rparr>;
                w1 = (if petHibernating g
                      then emit [CreateBlueHearts, PlaySound Snd_pet]
                             (w\<lparr>gd := g\<lparr>petEnergy := min 100 (petEnergy g + 5),
                                          petHappiness := min 100 (petHappiness g + 5)\<rparr>\<rparr>)
                      else emit [CreateHearts, PlaySound Snd_pet]
                             (w\<lparr>gd := g\<lparr>petHappiness := min 100 (petHappiness g + 10)\<rparr>\<rparr>))
            in emit [UpdatePetDisplay, SaveData] (checkHibernation now w1)))"

definition feedPet :: "world \<Rightarrow> world" where
  "feedPet w =
     emit [UpdatePetDisplay]
       (w\<lparr>gd := (gd w)\<lparr>petHunger := max 0 (petHunger (gd w) - 20),
                        petEnergy := min 100 (petEnergy (gd w) + 10),
                        petHappiness := min 100 (petHappiness (gd w) + 5)\<rparr>\<rparr>)"

definition boostPetEnergy :: "world \<Rightarrow> world" where
  "boostPetEnergy w =
     emit [UpdatePetDisplay]
       (w\<lparr>gd := (gd w)\<lparr>petEnergy := min 100 (petEnergy (gd w) + 15),
                        petHappiness := min 100 (petHappiness (gd w) + 10)\<rparr>\<rparr>)"

definition evolvePet :: "evolution \<Rightarrow> world \<Rightarrow> world" where
  "evolvePet newEvolution w =
     emit [ShowCelebration (EvolutionPopup (name newEvolution)), CreateConfetti,
           PlaySound Snd_evolution] w"

definition checkPetEvolution :: "world \<Rightarrow> world" where
  "checkPetEvolution w =
     (let currentEvolution = getPetEvolution (gd w)
      in if petStage (gd w) < stage currentEvolution
         then evolvePet currentEvolution (w\<lparr>gd := (gd w)\<lparr>petStage := stage currentEvolution\<rparr>\<rparr>)
         else w)"

subsection \<open>Stat decay\<close>

text \<open>
  \<open>gameData.petLastUpdate || now\<close>: a timestamp of 0 is falsy and is replaced by
  \<open>now\<close>. The hunger penalty on happiness reads the hunger already updated in this tick.
\<close>

definition updatePetNeeds :: "int \<Rightarrow> world \<Rightarrow> world" where
  "updatePetNeeds now w =
     (let g = gd w;
          lastUpdate = (if petLastUpdate g = 0 then now else petLastUpdate g);
          minutesSinceLastUpdate = (of_int (now - lastUpdate) :: rat) / (1000 * 60)
      in if minutesSinceLastUpdate \<ge> 1 then
           (let decayMultiplier = minutesSinceLastUpdate / 60;
                g1 = (if petHibernating g then
                        g\<lparr>petHunger := min 100 (petHunger g + 20 * decayMultiplier),
                          petEnergy := max 0 (petEnergy g - 5 * decayMultiplier),
                          petHappiness := max 0 (petHappiness g - 15 * decayMultiplier)\<rparr>
                      else
                        (let g' = g\<lparr>petHunger := min 100 (petHunger g + 20 * decayMultiplier),
                                    petEnergy := max 0 (petEnergy g - 10 * decayMultiplier),
                                    petHappiness := max 0 (petHappiness g - 8 * decayMultiplier)\<rparr>
                         in if petHunger g' > 70
                            then g'\<lparr>petHappiness := max 0 (petHappiness g' - 5 * decayMultiplier)\<rparr>
                            else g'));
                w1 = w\<lparr>gd := g1\<lparr>petLastUpdate := now\<rparr>\<rparr>
            in emit [UpdatePetDisplay, SaveData] (checkHibernation now w1))
         else w)"

subsection \<open>Achievements\<close>

datatype achievement_type = No_type | Type_streak | Type_level | Type_pet

record achievement =
  ach_id :: string
  ach_name :: string
  desc :: string
  requirement :: int
  ach_type :: achievement_type

definition achievements_list :: "achievement list" where
  "achievements_list =
    [\<lparr>ach_id = ''first_task'', ach_name = ''First Steps'', desc = ''Complete 1 task'', requirement = 1, ach_type = No_type\<rparr>,
     \<lparr>ach_id = ''task_5'', ach_name = ''Getting Started'', desc = ''Complete 5 tasks'', requirement = 5, ach_type = No_type\<rparr>,
     \<lparr>ach_id = ''task_10'', ach_name = ''On Fire'', desc = ''Complete 10 tasks'', requirement = 10, ach_type = No_type\<rparr>,
     \<lparr>ach_id = ''task_25'', ach_name = ''Dedicated'', desc = ''Complete 25 tasks'', requirement = 25, ach_type = No_type\<rparr>,
     \<lparr>ach_id = ''task_50'', ach_name = ''Unstoppable'', desc = ''Complete 50 tasks'', requirement = 50, ach_type = No_type\<rparr>,
     \<lparr>ach_id = ''task_100'', ach_name = ''Legend'', desc = ''Complete 100 tasks'', requirement = 100, ach_type = No_type\<rparr>,
     \<lparr>ach_id = ''streak_3'', ach_name = ''Habit Former'', desc = ''3 day streak'', requirement = 3, ach_type = Type_streak\<rparr>,
     \<lparr>ach_id = ''streak_7'', ach_name = ''Week Warrior'', desc = ''7 day streak'', requirement = 7, ach_type = Type_streak\<rparr>,
     \<lparr>ach_id = ''level_5'', ach_name = ''Rising Star'', desc = ''Reach level 5'', requirement = 5, ach_type = Type_level\<rparr>,
     \<lparr>ach_id = ''level_10'', ach_name = ''Master'', desc = ''Reach level 10'', requirement = 10, ach_type = Type_level\<rparr>,
     \<lparr>ach_id = ''level_15'', ach_name = ''Champion'', desc = ''Reach level 15'', requirement = 15, ach_type = Type_level\<rparr>,
     \<lparr>ach_id = ''level_20'', ach_name = ''Legendary'', desc = ''Reach level 20'', requirement = 20, ach_type = Type_level\<rparr>,
     \<lparr>ach_id = ''pet_lover'', ach_name = ''Pet Lover'', desc = ''Pet your buddy 10 times'', requirement = 10, ach_type = Type_pet\<rparr>]"

definition unlockAchievement :: "achievement \<Rightarrow> world \<Rightarrow> world" where
  "unlockAchievement a w =
     (let w1 = emit [ShowCelebration (AchievementUnlockedPopup (ach_name a)), CreateConfetti,
                     PlaySound Snd_achievement, RenderAchievements]
                 (w\<lparr>gd := (gd w)\<lparr>achievements := insert (ach_id a) (achievements (gd w))\<rparr>\<rparr>)
      in emit [UpdatePetDisplay, SaveData]
           (w1\<lparr>gd := (gd w1)\<lparr>petHappiness := min 100 (petHappiness (gd w1) + 15)\<rparr>\<rparr>))"

text \<open>
  The body of the \<open>forEach\<close> callback of \<open>checkAchievements\<close>, for one table row;
  \<open>unlocked\<close> is its local variable of that name.
\<close>

definition unlocked :: "achievement \<Rightarrow> gameData \<Rightarrow> bool" where
  "unlocked a g =
     (if ach_type a = Type_streak then streak g \<ge> requirement a
      else if ach_type a = Type_level then level g \<ge> requirement a
      else totalCompleted g \<ge> requirement a)"

definition checkAchievement :: "achievement \<Rightarrow> world \<Rightarrow> world" where
  "checkAchievement a w =
     (if ach_id a \<notin> achievements (gd w) then
        (if unlocked a (gd w) then unlockAchievement a w else w)
      else w)"

definition checkAchievements :: "world \<Rightarrow> world" where
  "checkAchievements w = fold checkAchievement achievements_list w"

subsection \<open>XP, levels and streak\<close>

definition getXPForLevel :: "int \<Rightarrow> int" where
  "getXPForLevel lvl = 100 + (lvl - 1) * 50"

definition levelUp :: "world \<Rightarrow> world" where
  "levelUp w =
     (let g = gd w;
          g1 = g\<lparr>xp := xp g - getXPForLevel (level g), level := level g + 1\<rparr>;
          w1 = w\<lparr>gd := g1\<rparr>;
          is5LevelMilestone = (level g1 mod 5 = 0);
          w2 = (if is5LevelMilestone
                then checkPetEvolution
                       (emit [ShowCelebration (MegaLevelUpPopup (level g1)), CreateConfetti] w1)
                else emit [ShowCelebration (LevelUpPopup (level g1)), CreateConfetti] w1);
          w3 = w2\<lparr>gd := (gd w2)\<lparr>petHappiness := min 100 (petHappiness (gd w2) + 20),
                                 petEnergy := min 100 (petEnergy (gd w2) + 15)\<rparr>\<rparr>
      in emit [UpdatePetDisplay] (checkAchievements (emit [PlaySound Snd_levelup] w3)))"

definition addXP :: "int \<Rightarrow> world \<Rightarrow> world" where
  "addXP amount w =
     (let g = gd w;
          w1 = emit [ShowFloatingXP amount]
                 (w\<lparr>gd := g\<lparr>xp := xp g + amount, totalXP := totalXP g + amount\<rparr>\<rparr>);
          xpNeeded = getXPForLevel (level (gd w1));
          w2 = (if xp (gd w1) \<ge> xpNeeded then levelUp w1 else w1)
      in emit [UpdatePlayerStats, PlaySound Snd_xp] w2)"

text \<open>
  \<open>toDateString\<close> formats the local date of an instant: the day that holds the local time
  \<open>t + tz t\<close>. \<open>utc\<close> is the zone of offset 0. \<open>newYork2026\<close> has the offsets of
  America/New_York in 2026: UTC-5, and UTC-4 from 8 March 07:00 UTC (02:00 local) to
  1 November 06:00 UTC.
\<close>

type_synonym timezone = "int \<Rightarrow> int"

definition toDateString :: "timezone \<Rightarrow> int \<Rightarrow> int" where
  "toDateString tz t = (t + tz t) div 86400000"

definition utc :: timezone where
  "utc t = 0"

definition newYork2026 :: timezone where
  "newYork2026 t =
     (if 1772953200000 \<le> t \<and> t < 1793512800000 then - 14400000 else - 18000000)"

text \<open>
  \<open>lastCompletedDate\<close> holds a string that \<open>toDateString\<close> made; \<open>new Date(lastDate)\<close>
  reads it as the local midnight of that day, and \<open>toDateString\<close> of that is the same
  day, so \<open>lastDay\<close> is the stored day. \<open>yesterday\<close> is the local date of the instant
  86400000 ms before now.
\<close>

definition updateStreak :: "timezone \<Rightarrow> int \<Rightarrow> world \<Rightarrow> world" where
  "updateStreak tz now w =
     (let today = toDateString tz now;
          g = gd w;
          g1 = (case lastCompletedDate g of
                  Some lastDay \<Rightarrow>
                    (let yesterday = toDateString tz (now - 86400000)
                     in if lastDay = yesterday then g\<lparr>streak := streak g + 1\<rparr>
                        else if lastDay \<noteq> today then g\<lparr>streak := 1\<rparr>
                        else g)
                | None \<Rightarrow> g\<lparr>streak := 1\<rparr>)
      in checkAchievements (w\<lparr>gd := g1\<lparr>lastCompletedDate := Some today\<rparr>\<rparr>))"

subsection \<open>Tasks\<close>

text \<open>
  \<open>tasks.find\<close> returns the first task with the id (or \<open>undefined\<close>); setting
  \<open>task.completed\<close> changes that element of the array.
\<close>

fun markCompleted :: "int \<Rightarrow> task list \<Rightarrow> task list" where
  "markCompleted i [] = []"
| "markCompleted i (t # ts) =
     (if task_id t = i then t\<lparr>completed := True\<rparr> # ts else t # markCompleted i ts)"

text \<open>
  The synchronous part of \<open>toggleTask\<close>. The removal of the completed task runs 500 ms
  later from a timer: the handler only schedules it (\<open>ScheduleTaskRemoval\<close>), and
  \<open>toggleTask_timeout\<close> is the callback.
\<close>

definition toggleTask :: "timezone \<Rightarrow> int \<Rightarrow> int \<Rightarrow> world \<Rightarrow> error + world" where
  "toggleTask tz i now w =
     (let t = find (\<lambda>t. task_id t = i) (tasks w)
      in if petHibernating (gd w)
         then Inr (emit [ShowCelebration PetIsSleepingPopup, PlaySound Snd_hibernate] w)
         else
           (case t of
              None \<Rightarrow> Inl TypeError
            | Some tk \<Rightarrow>
                if \<not> completed tk then
                  (let w1 = w\<lparr>tasks := markCompleted i (tasks w),
                              gd := (gd w)\<lparr>totalCompleted := totalCompleted (gd w) + 1\<rparr>\<rparr>;
                       w2 = addXP (task_xp tk) w1;
                       w3 = updateStreak tz now w2;
                       w4 = checkAchievements w3;
                       w5 = feedPet w4;
                       w6 = boostPetEnergy w5;
                       w7 = checkHibernation now w6
                   in Inr (emit [ScheduleTaskRemoval i, SaveData] w7))
                else Inr (emit [SaveData] w)))"

definition toggleTask_timeout :: "int \<Rightarrow> world \<Rightarrow> world" where
  "toggleTask_timeout i w =
     emit [SaveData, RenderTasks] (w\<lparr>tasks := filter (\<lambda>t. task_id t \<noteq> i) (tasks w)\<rparr>)"


subsection \<open>The stat range and some concrete worlds\<close>

definition stats_in_range :: "gameData \<Rightarrow> bool" where
  "stats_in_range g =
     (0 \<le> petHappiness g \<and> petHappiness g \<le> 100
      \<and> 0 \<le> petEnergy g \<and> petEnergy g \<le> 100
      \<and> 0 \<le> petHunger g \<and> petHunger g \<le> 100)"

definition xp90World :: world where
  "xp90World = (defaultWorld 1000)\<lparr>gd := (defaultGameData 1000)\<lparr>xp := 90, totalXP := 90\<rparr>\<rparr>"

definition xp100World :: world where
  "xp100World = (defaultWorld 1000)\<lparr>gd := (defaultGameData 1000)\<lparr>xp := 100, totalXP := 100\<rparr>\<rparr>"

definition sleepingWorld :: world where
  "sleepingWorld =
     \<lparr>gd = (defaultGameData 1000)\<lparr>petEnergy := 10, petHappiness := 20, petHibernating := True,
                                   hibernationStartTime := Some 1000\<rparr>,
      tasks = [\<lparr>task_id = 7, task_text = ''Write report'', priority = ''high'',
                completed = False, task_xp = 50\<rparr>],
      events = []\<rparr>"

definition oneTaskWorld :: world where
  "oneTaskWorld =
     (defaultWorld 1000)\<lparr>tasks := [\<lparr>task_id = 7, task_text = ''Write report'', priority = ''high'',
                                     completed = False, task_xp = 50\<rparr>]\<rparr>"

definition exhaustedWorld :: world where
  "exhaustedWorld = (defaultWorld 1000)\<lparr>gd := (defaultGameData 1000)\<lparr>petEnergy := 0\<rparr>\<rparr>"

definition tenTasksWorld :: world where
  "tenTasksWorld = (defaultWorld 1000)\<lparr>gd := (defaultGameData 1000)\<lparr>totalCompleted := 10\<rparr>\<rparr>"

section \<open>Auxiliary facts\<close>

subsection \<open>The event trace does not touch the state\<close>

lemma gd_emit [simp]: "gd (emit es w) = gd w"
  by (simp add: emit_def)

lemma tasks_emit [simp]: "tasks (emit es w) = tasks w"
  by (simp add: emit_def)

lemma events_emit [simp]: "events (emit es w) = events w @ es"
  by (simp add: emit_def)

subsection \<open>What the achievement check and the evolution check leave alone\<close>

lemma gd_fold_checkAchievement:
  "gd (fold checkAchievement as w) =
     (gd w)\<lparr>achievements := achievements (gd (fold checkAchievement as w)),
             petHappiness := petHappiness (gd (fold checkAchievement as w))\<rparr>"
proof (induction as arbitrary: w)
  case Nil
  show ?case by simp
next
  case (Cons a as)
  let ?v = "checkAchievement a w"
  have step: "gd ?v =
      (gd w)\<lparr>achievements := achievements (gd ?v), petHappiness := petHappiness (gd ?v)\<rparr>"
    by (simp add: checkAchievement_def unlockAchievement_def Let_def)
  have "gd (fold checkAchievement as ?v) =
      (gd ?v)\<lparr>achievements := achievements (gd (fold checkAchievement as ?v)),
              petHappiness := petHappiness (gd (fold checkAchievement as ?v))\<rparr>"
    by (rule Cons.IH)
  also have "\<dots> =
      (gd w)\<lparr>achievements := achievements (gd (fold checkAchievement as ?v)),
             petHappiness := petHappiness (gd (fold checkAchievement as ?v))\<rparr>"
    by (subst step) simp
  finally show ?case by simp
qed

lemma gd_checkAchievements:
  "gd (checkAchievements w) =
     (gd w)\<lparr>achievements := achievements (gd (checkAchievements w)),
             petHappiness := petHappiness (gd (checkAchievements w))\<rparr>"
  unfolding checkAchievements_def by (rule gd_fold_checkAchievement)

lemma frame_achievements_happiness:
  "g' = g\<lparr>achievements := A, petHappiness := H\<rparr> \<Longrightarrow>
     level g' = level g \<and> xp g' = xp g \<and> totalXP g' = totalXP g \<and> streak g' = streak g
     \<and> lastCompletedDate g' = lastCompletedDate g \<and> totalCompleted g' = totalCompleted g
     \<and> petEnergy g' = petEnergy g \<and> petHunger g' = petHunger g \<and> petStage g' = petStage g
     \<and> petHibernating g' = petHibernating g
     \<and> hibernationStartTime g' = hibernationStartTime g"
  by simp

lemma checkAchievements_frame [simp]:
  "level (gd (checkAchievements w)) = level (gd w)"
  "xp (gd (checkAchievements w)) = xp (gd w)"
  "totalXP (gd (checkAchievements w)) = totalXP (gd w)"
  "streak (gd (checkAchievements w)) = streak (gd w)"
  "lastCompletedDate (gd (checkAchievements w)) = lastCompletedDate (gd w)"
  "totalCompleted (gd (checkAchievements w)) = totalCompleted (gd w)"
  "petEnergy (gd (checkAchievements w)) = petEnergy (gd w)"
  "petHunger (gd (checkAchievements w)) = petHunger (gd w)"
  "petStage (gd (checkAchievements w)) = petStage (gd w)"
  "petHibernating (gd (checkAchievements w)) = petHibernating (gd w)"
  "hibernationStartTime (gd (checkAchievements w)) = hibernationStartTime (gd w)"
  using frame_achievements_happiness [OF gd_checkAchievements, of w] by blast+

lemma checkPetEvolution_frame [simp]:
  "level (gd (checkPetEvolution w)) = level (gd w)"
  "xp (gd (checkPetEvolution w)) = xp (gd w)"
  "totalXP (gd (checkPetEvolution w)) = totalXP (gd w)"
  "petHappiness (gd (checkPetEvolution w)) = petHappiness (gd w)"
  "petEnergy (gd (checkPetEvolution w)) = petEnergy (gd w)"
  "petHunger (gd (checkPetEvolution w)) = petHunger (gd w)"
  by (simp_all add: checkPetEvolution_def evolvePet_def Let_def)

lemma stage_getPetEvolution:
  "stage (getPetEvolution g) =
     (if level g \<ge> 25 then 6 else if level g \<ge> 20 then 5 else if level g \<ge> 15 then 4
      else if level g \<ge> 10 then 3 else if level g \<ge> 5 then 2 else if level g \<ge> 2 then 1 else 0)"
  by (simp add: getPetEvolution_def petEvolutions_def)

section \<open>Hibernation\<close>

text \<open>
  C4. \<open>checkHibernation\<close> has a deadband. A hibernating pet whose energy lies strictly
  between 0 and 20 is left as it is, and so is an awake pet whose energy is above 0: in
  both cases the check changes nothing at all. After the check the pet hibernates exactly
  when it hibernated before and its energy is below 20, or it was awake and its energy
  is at most 0; so only energy of 20 or more wakes it and only energy of 0 or less puts
  it to sleep.
\<close>

theorem checkHibernation_hysteresis:
  "(petHibernating (gd w) \<and> 0 < petEnergy (gd w) \<and> petEnergy (gd w) < 20
      \<longrightarrow> checkHibernation now w = w)
   \<and> (\<not> petHibernating (gd w) \<and> 0 < petEnergy (gd w)
      \<longrightarrow> checkHibernation now w = w)
   \<and> (petHibernating (gd (checkHibernation now w))
      \<longleftrightarrow> (if petHibernating (gd w) then petEnergy (gd w) < 20 else petEnergy (gd w) \<le> 0))"
  by (auto simp: checkHibernation_def enterHibernation_def wakeFromHibernation_def Let_def)

theorem checkHibernation_hysteresis_witness:
  "petHibernating (gd sleepingWorld)
   \<and> 0 < petEnergy (gd sleepingWorld) \<and> petEnergy (gd sleepingWorld) < 20
   \<and> checkHibernation 2000 sleepingWorld = sleepingWorld
   \<and> \<not> petHibernating (gd (defaultWorld 1000)) \<and> 0 < petEnergy (gd (defaultWorld 1000))
   \<and> checkHibernation 2000 (defaultWorld 1000) = defaultWorld 1000"
  using checkHibernation_hysteresis [of sleepingWorld 2000]
    checkHibernation_hysteresis [of "defaultWorld 1000" 2000]
  by (simp add: sleepingWorld_def defaultWorld_def defaultGameData_def)

text \<open>
  C2, as the script has it. \<open>enterHibernation\<close> sets the flag and stores the current
  timestamp in \<open>hibernationStartTime\<close>. \<open>wakeFromHibernation\<close> clears the flag and leaves
  \<open>hibernationStartTime\<close> as it was: the script never resets it to \<open>null\<close>, so after the
  first hibernation it keeps the start of the latest one. Hence "a hibernating pet has a
  start time" survives \<open>checkHibernation\<close>, while a start time does not mean that the
  pet hibernates.
\<close>

theorem hibernationStartTime_set_on_entry_kept_on_wake:
  "petHibernating (gd (enterHibernation now w))
   \<and> hibernationStartTime (gd (enterHibernation now w)) = Some now
   \<and> \<not> petHibernating (gd (wakeFromHibernation w))
   \<and> hibernationStartTime (gd (wakeFromHibernation w)) = hibernationStartTime (gd w)
   \<and> ((petHibernating (gd w) \<longrightarrow> hibernationStartTime (gd w) \<noteq> None) \<longrightarrow>
        (petHibernating (gd (checkHibernation now w)) \<longrightarrow>
           hibernationStartTime (gd (checkHibernation now w)) \<noteq> None))"
  by (simp add: checkHibernation_def enterHibernation_def wakeFromHibernation_def Let_def)

theorem hibernationStartTime_set_on_entry_kept_on_wake_witness:
  "petHibernating (gd exhaustedWorld) = False
   \<and> petHibernating (gd (checkHibernation 2000 exhaustedWorld))
   \<and> hibernationStartTime (gd (checkHibernation 2000 exhaustedWorld)) = Some 2000"
  using hibernationStartTime_set_on_entry_kept_on_wake [of 2000 exhaustedWorld]
  by (simp add: checkHibernation_def enterHibernation_def Let_def
      exhaustedWorld_def defaultWorld_def defaultGameData_def)

text \<open>
  The start time is not cleared again: a pet that fell asleep at time 2000 and is woken
  is awake and still carries the start time 2000, so "the start time is present exactly
  when the pet hibernates" does not hold.
\<close>

theorem hibernationStartTime_not_cleared_on_wake:
  "petHibernating (gd (wakeFromHibernation (enterHibernation 2000 (defaultWorld 1000)))) = False
   \<and> hibernationStartTime (gd (wakeFromHibernation (enterHibernation 2000 (defaultWorld 1000))))
       = Some 2000"
  by (simp add: enterHibernation_def wakeFromHibernation_def)

section \<open>Task completion while the pet sleeps\<close>

text \<open>
  C5. While the pet hibernates, \<open>toggleTask\<close> returns normally for every task id, present
  or not, and the world it returns differs from the one it got only in the event trace,
  which gains the "pet is sleeping" popup and the hibernate sound: \<open>gameData\<close> (so XP,
  level and counters) and the task list are untouched, and no removal is scheduled.
\<close>

theorem toggleTask_hibernating_rejected:
  "petHibernating (gd w) \<Longrightarrow>
     toggleTask tz i now w =
       Inr (w\<lparr>events := events w @ [ShowCelebration PetIsSleepingPopup, PlaySound Snd_hibernate]\<rparr>)"
  by (simp add: toggleTask_def emit_def)

theorem toggleTask_hibernating_rejected_witness:
  "petHibernating (gd sleepingWorld)
   \<and> toggleTask utc 7 2000 sleepingWorld =
       Inr (sleepingWorld\<lparr>events := [ShowCelebration PetIsSleepingPopup, PlaySound Snd_hibernate]\<rparr>)"
proof -
  have h: "petHibernating (gd sleepingWorld)"
    by (simp add: sleepingWorld_def)
  have e: "events sleepingWorld = []"
    by (simp add: sleepingWorld_def)
  show ?thesis
    using h e toggleTask_hibernating_rejected [OF h, where tz = utc and i = 7 and now = 2000] by simp
qed

section \<open>Stat decay\<close>

lemma petLastUpdate_checkHibernation [simp]:
  "petLastUpdate (gd (checkHibernation now w)) = petLastUpdate (gd w)"
  by (simp add: checkHibernation_def enterHibernation_def wakeFromHibernation_def Let_def)

lemma updatePetNeeds_debounce:
  "now - petLastUpdate (gd w) < 60000 \<Longrightarrow> updatePetNeeds now w = w"
  by (simp add: updatePetNeeds_def Let_def)

lemma updatePetNeeds_stamps:
  "updatePetNeeds now w \<noteq> w \<Longrightarrow> petLastUpdate (gd (updatePetNeeds now w)) = now"
  by (auto simp add: updatePetNeeds_def Let_def split: if_splits)

lemma tick_one_hour:
  "petEnergy (gd (updatePetNeeds 3601000 (defaultWorld 1000))) = 65"
  by (simp add: updatePetNeeds_def checkHibernation_def Let_def defaultWorld_def defaultGameData_def)

text \<open>
  C8. For every world and every timestamp, a second call of \<open>updatePetNeeds\<close> with the
  same \<open>now\<close> returns the world the first call returned. The reason is the one the
  claim gives: a call that changes anything stores \<open>now\<close> in \<open>petLastUpdate\<close>, and a call
  made less than 60000 ms after \<open>petLastUpdate\<close> changes nothing.
\<close>

theorem updatePetNeeds_idempotent:
  "updatePetNeeds now (updatePetNeeds now w) = updatePetNeeds now w
   \<and> (updatePetNeeds now w \<noteq> w \<longrightarrow> petLastUpdate (gd (updatePetNeeds now w)) = now)
   \<and> (now - petLastUpdate (gd w) < 60000 \<longrightarrow> updatePetNeeds now w = w)"
proof -
  have "updatePetNeeds now (updatePetNeeds now w) = updatePetNeeds now w"
  proof (cases "updatePetNeeds now w = w")
    case True
    then show ?thesis by simp
  next
    case False
    then have "petLastUpdate (gd (updatePetNeeds now w)) = now"
      by (rule updatePetNeeds_stamps)
    then have "now - petLastUpdate (gd (updatePetNeeds now w)) < 60000"
      by simp
    then show ?thesis
      by (rule updatePetNeeds_debounce)
  qed
  then show ?thesis
    by (simp add: updatePetNeeds_stamps updatePetNeeds_debounce)
qed

theorem updatePetNeeds_idempotent_witness:
  "updatePetNeeds 3601000 (defaultWorld 1000) \<noteq> defaultWorld 1000
   \<and> petLastUpdate (gd (updatePetNeeds 3601000 (defaultWorld 1000))) = 3601000
   \<and> updatePetNeeds 3601000 (updatePetNeeds 3601000 (defaultWorld 1000))
       = updatePetNeeds 3601000 (defaultWorld 1000)"
proof -
  have "petEnergy (gd (updatePetNeeds 3601000 (defaultWorld 1000)))
          \<noteq> petEnergy (gd (defaultWorld 1000))"
    by (simp add: tick_one_hour) (simp add: defaultWorld_def defaultGameData_def)
  then have changed: "updatePetNeeds 3601000 (defaultWorld 1000) \<noteq> defaultWorld 1000"
    by auto
  with updatePetNeeds_idempotent [of 3601000 "defaultWorld 1000"] show ?thesis
    by simp
qed

section \<open>XP and levels\<close>

text \<open>
  C7. \<open>addXP amount\<close> adds the amount to \<open>totalXP\<close> and to \<open>xp\<close>. When the new \<open>xp\<close>
  reaches \<open>100 + (level - 1) * 50\<close>, the level goes up by exactly one and that amount
  is taken off \<open>xp\<close>, once, however large the award; otherwise the level stays and \<open>xp\<close>
  keeps the sum. From level 1 with 90 XP, an award of 20 gives level 2 with 10 XP.
\<close>

theorem addXP_single_level_up:
  "totalXP (gd (addXP amount w)) = totalXP (gd w) + amount
   \<and> (xp (gd w) + amount \<ge> 100 + (level (gd w) - 1) * 50 \<longrightarrow>
        level (gd (addXP amount w)) = level (gd w) + 1
        \<and> xp (gd (addXP amount w)) = xp (gd w) + amount - (100 + (level (gd w) - 1) * 50))
   \<and> (xp (gd w) + amount < 100 + (level (gd w) - 1) * 50 \<longrightarrow>
        level (gd (addXP amount w)) = level (gd w)
        \<and> xp (gd (addXP amount w)) = xp (gd w) + amount)
   \<and> (level (gd w) = 1 \<and> xp (gd w) = 90 \<longrightarrow>
        level (gd (addXP 20 w)) = 2 \<and> xp (gd (addXP 20 w)) = 10)"
  by (simp add: addXP_def levelUp_def getXPForLevel_def Let_def)

theorem addXP_single_level_up_witness:
  "level (gd xp90World) = 1 \<and> xp (gd xp90World) = 90
   \<and> level (gd (addXP 20 xp90World)) = 2 \<and> xp (gd (addXP 20 xp90World)) = 10
   \<and> totalXP (gd (addXP 20 xp90World)) = 110"
  using addXP_single_level_up [of 20 xp90World]
  by (simp add: xp90World_def defaultWorld_def defaultGameData_def)

lemma levelUp_petStage_off_milestone:
  "(level (gd w) + 1) mod 5 \<noteq> 0 \<Longrightarrow> petStage (gd (levelUp w)) = petStage (gd w)"
  by (simp add: levelUp_def Let_def)

text \<open>
  C1. \<open>levelUp\<close> calls \<open>checkPetEvolution\<close> only inside its branch for levels that are
  multiples of 5, while the evolution table has a row at \<open>minLevel\<close> 2. Levelling up
  from level 1 (with the 100 XP that make \<open>addXP\<close> call \<open>levelUp\<close>) gives level 2 and
  leaves \<open>petStage\<close> at 0, although the table row for level 2 has stage 1; the unconditional
  \<open>checkPetEvolution\<close> that the script runs at start-up would set it to 1.
\<close>

theorem levelUp_to_level_2_keeps_petStage:
  "level (gd (levelUp xp100World)) = 2
   \<and> petStage (gd (levelUp xp100World)) = 0
   \<and> stage (getPetEvolution (gd (levelUp xp100World))) = 1
   \<and> petStage (gd (checkPetEvolution (levelUp xp100World))) = 1"
  by (simp add: stage_getPetEvolution checkPetEvolution_def evolvePet_def levelUp_def Let_def
      xp100World_def defaultWorld_def defaultGameData_def)

section \<open>Streak\<close>

lemma streak_updateStreak:
  "streak (gd (updateStreak tz now w)) =
     (case lastCompletedDate (gd w) of
        None \<Rightarrow> 1
      | Some lastDay \<Rightarrow>
          if lastDay = toDateString tz (now - 86400000) then streak (gd w) + 1
          else if lastDay \<noteq> toDateString tz now then 1
          else streak (gd w))"
  by (simp add: updateStreak_def Let_def split: option.splits)

lemma lastCompletedDate_updateStreak:
  "lastCompletedDate (gd (updateStreak tz now w)) = Some (toDateString tz now)"
  by (simp add: updateStreak_def Let_def)

text \<open>
  Where the offset never changes, the instant 86400000 ms earlier lies on the previous
  local day, and \<open>updateStreak\<close> follows the daily rules: 1 without an earlier date, one
  more after a completion on the day before, unchanged after one on the same day, 1
  after any other date; completions on days D, D+1 and D+3 give 1, 2 and 1.
\<close>

lemma toDateString_day_before:
  assumes "\<And>t. tz t = c"
  shows "toDateString tz (now - 86400000) = toDateString tz now - 1"
proof -
  have "(now + c + (- 1) * 86400000) div 86400000 = (- 1) + (now + c) div (86400000::int)"
    by (rule div_mult_self1) simp
  moreover have "now - 86400000 + c = now + c + (- 1) * 86400000"
    by simp
  ultimately show ?thesis
    by (simp add: toDateString_def assms)
qed

lemma updateStreak_rules_fixed_offset:
  assumes "\<And>t. tz t = c"
  shows "(lastCompletedDate (gd w) = None \<longrightarrow> streak (gd (updateStreak tz now w)) = 1)
   \<and> (lastCompletedDate (gd w) = Some (toDateString tz now - 1) \<longrightarrow>
        streak (gd (updateStreak tz now w)) = streak (gd w) + 1)
   \<and> (lastCompletedDate (gd w) = Some (toDateString tz now) \<longrightarrow>
        streak (gd (updateStreak tz now w)) = streak (gd w))
   \<and> (\<forall>d. lastCompletedDate (gd w) = Some d \<and> d \<noteq> toDateString tz now
          \<and> d \<noteq> toDateString tz now - 1 \<longrightarrow>
        streak (gd (updateStreak tz now w)) = 1)
   \<and> lastCompletedDate (gd (updateStreak tz now w)) = Some (toDateString tz now)
   \<and> (lastCompletedDate (gd w) = None \<and> toDateString tz t2 = toDateString tz t1 + 1
        \<and> toDateString tz t3 = toDateString tz t1 + 3 \<longrightarrow>
        streak (gd (updateStreak tz t1 w)) = 1
        \<and> streak (gd (updateStreak tz t2 (updateStreak tz t1 w))) = 2
        \<and> streak (gd (updateStreak tz t3 (updateStreak tz t2 (updateStreak tz t1 w)))) = 1)"
  by (simp add: streak_updateStreak lastCompletedDate_updateStreak
      toDateString_day_before [OF assms])

text \<open>
  C9. \<open>updateStreak\<close> takes as yesterday the local date of the instant 86400000 ms before
  now, which is not the previous calendar day around a daylight-saving switch. In New
  York, with tasks completed on Saturday 7 March 2026 (12:00), on Sunday 8 March (12:00,
  the 23-hour day) and on Monday 9 March at 00:30, the streak goes 1, 2, 1: at the third
  completion the instant 24 hours earlier is Saturday 23:30, so Sunday counts neither as
  yesterday nor as today and the streak of consecutive days is reset. On Sunday
  1 November 2026 (the 25-hour day), with a task completed at 12:00 and another at 23:30,
  the streak goes 1, 2: the instant 24 hours before 23:30 is 00:30 of the same Sunday, so
  today counts as yesterday and a second completion on one day raises the streak.
\<close>

theorem updateStreak_daylight_saving:
  "toDateString newYork2026 1772902800000 = 20519
   \<and> toDateString newYork2026 1772985600000 = 20520
   \<and> toDateString newYork2026 1773030600000 = 20521
   \<and> streak (gd (updateStreak newYork2026 1772902800000 (defaultWorld 1000))) = 1
   \<and> streak (gd (updateStreak newYork2026 1772985600000
                  (updateStreak newYork2026 1772902800000 (defaultWorld 1000)))) = 2
   \<and> streak (gd (updateStreak newYork2026 1773030600000
                  (updateStreak newYork2026 1772985600000
                    (updateStreak newYork2026 1772902800000 (defaultWorld 1000))))) = 1
   \<and> toDateString newYork2026 1793552400000 = 20758
   \<and> toDateString newYork2026 1793593800000 = 20758
   \<and> streak (gd (updateStreak newYork2026 1793552400000 (defaultWorld 1000))) = 1
   \<and> streak (gd (updateStreak newYork2026 1793593800000
                  (updateStreak newYork2026 1793552400000 (defaultWorld 1000)))) = 2"
  by (simp add: streak_updateStreak lastCompletedDate_updateStreak toDateString_def
      newYork2026_def defaultWorld_def defaultGameData_def)

section \<open>The pet stats stay between 0 and 100\<close>

lemma stats_emit [simp]: "stats_in_range (gd (emit es w)) = stats_in_range (gd w)"
  by simp

lemma stats_enterHibernation:
  "stats_in_range (gd w) \<Longrightarrow> stats_in_range (gd (enterHibernation now w))"
  by (simp add: stats_in_range_def enterHibernation_def)

lemma stats_wakeFromHibernation:
  "stats_in_range (gd w) \<Longrightarrow> stats_in_range (gd (wakeFromHibernation w))"
  by (simp add: stats_in_range_def wakeFromHibernation_def)

lemma stats_checkHibernation:
  "stats_in_range (gd w) \<Longrightarrow> stats_in_range (gd (checkHibernation now w))"
  by (simp add: checkHibernation_def Let_def stats_enterHibernation stats_wakeFromHibernation)

lemma stats_feedPet: "stats_in_range (gd w) \<Longrightarrow> stats_in_range (gd (feedPet w))"
  by (simp add: stats_in_range_def feedPet_def)

lemma stats_boostPetEnergy: "stats_in_range (gd w) \<Longrightarrow> stats_in_range (gd (boostPetEnergy w))"
  by (simp add: stats_in_range_def boostPetEnergy_def)

lemma stats_petPet: "stats_in_range (gd w) \<Longrightarrow> stats_in_range (gd (petPet now w))"
proof -
  assume ok: "stats_in_range (gd w)"
  let ?g = "(gd w)\<lparr>petLastPet := now\<rparr>"
  have a: "stats_in_range
             (gd (w\<lparr>gd := ?g\<lparr>petEnergy := min 100 (petEnergy ?g + 5),
                               petHappiness := min 100 (petHappiness ?g + 5)\<rparr>\<rparr>))"
    using ok by (simp add: stats_in_range_def)
  have b: "stats_in_range (gd (w\<lparr>gd := ?g\<lparr>petHappiness := min 100 (petHappiness ?g + 10)\<rparr>\<rparr>))"
    using ok by (simp add: stats_in_range_def)
  show ?thesis
    unfolding petPet_def Let_def
    using ok a b by (simp add: stats_checkHibernation)
qed

lemma stats_unlockAchievement:
  "stats_in_range (gd w) \<Longrightarrow> stats_in_range (gd (unlockAchievement a w))"
  by (simp add: stats_in_range_def unlockAchievement_def Let_def)

lemma stats_checkAchievement:
  "stats_in_range (gd w) \<Longrightarrow> stats_in_range (gd (checkAchievement a w))"
  by (simp add: checkAchievement_def Let_def stats_unlockAchievement)

lemma stats_fold_checkAchievement:
  "stats_in_range (gd w) \<Longrightarrow> stats_in_range (gd (fold checkAchievement as w))"
  by (induction as arbitrary: w) (simp_all add: stats_checkAchievement)

lemma stats_checkAchievements:
  "stats_in_range (gd w) \<Longrightarrow> stats_in_range (gd (checkAchievements w))"
  by (simp add: checkAchievements_def stats_fold_checkAchievement)

lemma stats_checkPetEvolution:
  "stats_in_range (gd (checkPetEvolution w)) = stats_in_range (gd w)"
  by (simp add: stats_in_range_def)

lemma stats_levelUp: "stats_in_range (gd w) \<Longrightarrow> stats_in_range (gd (levelUp w))"
proof -
  assume ok: "stats_in_range (gd w)"
  define w1 where "w1 = w\<lparr>gd := (gd w)\<lparr>xp := xp (gd w) - getXPForLevel (level (gd w)),
                                      level := level (gd w) + 1\<rparr>\<rparr>"
  define w2 where "w2 = (if level (gd w1) mod 5 = 0
                then checkPetEvolution
                       (emit [ShowCelebration (MegaLevelUpPopup (level (gd w1))), CreateConfetti] w1)
                else emit [ShowCelebration (LevelUpPopup (level (gd w1))), CreateConfetti] w1)"
  define w3 where "w3 = w2\<lparr>gd := (gd w2)\<lparr>petHappiness := min 100 (petHappiness (gd w2) + 20),
                                 petEnergy := min 100 (petEnergy (gd w2) + 15)\<rparr>\<rparr>"
  have s1: "stats_in_range (gd w1)"
    using ok by (simp add: w1_def stats_in_range_def)
  have s2: "stats_in_range (gd w2)"
    using s1 by (simp add: w2_def stats_checkPetEvolution)
  have s3: "stats_in_range (gd w3)"
    using s2 by (simp add: w3_def stats_in_range_def)
  have "levelUp w = emit [UpdatePetDisplay] (checkAchievements (emit [PlaySound Snd_levelup] w3))"
    by (simp add: levelUp_def Let_def w1_def w2_def w3_def)
  then show ?thesis
    using s3 by (simp add: stats_checkAchievements)
qed

lemma stats_updatePetNeeds:
  "stats_in_range (gd w) \<Longrightarrow> stats_in_range (gd (updatePetNeeds now w))"
proof -
  assume ok: "stats_in_range (gd w)"
  define g where "g = gd w"
  define lastUpdate where "lastUpdate = (if petLastUpdate g = 0 then now else petLastUpdate g)"
  define minutes where "minutes = (of_int (now - lastUpdate) :: rat) / (1000 * 60)"
  define m where "m = minutes / 60"
  define g' where "g' = g\<lparr>petHunger := min 100 (petHunger g + 20 * m),
                            petEnergy := max 0 (petEnergy g - 10 * m),
                            petHappiness := max 0 (petHappiness g - 8 * m)\<rparr>"
  define g1 where "g1 = (if petHibernating g then
                        g\<lparr>petHunger := min 100 (petHunger g + 20 * m),
                          petEnergy := max 0 (petEnergy g - 5 * m),
                          petHappiness := max 0 (petHappiness g - 15 * m)\<rparr>
                      else if petHunger g' > 70
                           then g'\<lparr>petHappiness := max 0 (petHappiness g' - 5 * m)\<rparr>
                           else g')"
  have unfolded: "updatePetNeeds now w =
      (if minutes \<ge> 1
       then emit [UpdatePetDisplay, SaveData]
              (checkHibernation now (w\<lparr>gd := g1\<lparr>petLastUpdate := now\<rparr>\<rparr>))
       else w)"
    unfolding updatePetNeeds_def Let_def g1_def g'_def m_def minutes_def lastUpdate_def g_def
    by (rule refl)
  show ?thesis
  proof (cases "minutes \<ge> 1")
    case False
    then show ?thesis using ok by (simp only: unfolded if_False)
  next
    case True
    then have m0: "0 \<le> m" by (simp add: m_def)
    have okg: "stats_in_range g" using ok by (simp add: g_def)
    have sg': "stats_in_range g'"
      using okg m0 by (simp add: g'_def stats_in_range_def)
    have sg1: "stats_in_range g1"
      using okg sg' m0 by (simp add: g1_def stats_in_range_def)
    have "stats_in_range (gd (w\<lparr>gd := g1\<lparr>petLastUpdate := now\<rparr>\<rparr>))"
      using sg1 by (simp add: stats_in_range_def)
    then have "stats_in_range (gd (checkHibernation now (w\<lparr>gd := g1\<lparr>petLastUpdate := now\<rparr>\<rparr>)))"
      by (rule stats_checkHibernation)
    then show ?thesis
      using True by (simp only: unfolded if_True gd_emit)
  qed
qed

lemma stats_addXP: "stats_in_range (gd w) \<Longrightarrow> stats_in_range (gd (addXP amount w))"
proof -
  assume ok: "stats_in_range (gd w)"
  define w1 where "w1 = emit [ShowFloatingXP amount]
                 (w\<lparr>gd := (gd w)\<lparr>xp := xp (gd w) + amount, totalXP := totalXP (gd w) + amount\<rparr>\<rparr>)"
  have s1: "stats_in_range (gd w1)"
    using ok by (simp add: w1_def stats_in_range_def)
  have "addXP amount w =
      emit [UpdatePlayerStats, PlaySound Snd_xp]
        (if xp (gd w1) \<ge> getXPForLevel (level (gd w1)) then levelUp w1 else w1)"
    unfolding addXP_def Let_def w1_def by (rule refl)
  then show ?thesis
    using s1 by (simp add: stats_levelUp)
qed

lemma stats_updateStreak:
  "stats_in_range (gd w) \<Longrightarrow> stats_in_range (gd (updateStreak tz now w))"
proof -
  assume ok: "stats_in_range (gd w)"
  have other: "stats_in_range (g\<lparr>streak := n\<rparr>) = stats_in_range g"
    "stats_in_range (g\<lparr>lastCompletedDate := d\<rparr>) = stats_in_range g" for g n d
    by (simp_all add: stats_in_range_def)
  show ?thesis
    unfolding updateStreak_def Let_def
    using ok by (auto intro!: stats_checkAchievements simp: other split: option.splits)
qed

lemma stats_toggleTask:
  assumes "stats_in_range (gd w)" and "toggleTask tz i now w = Inr w'"
  shows "stats_in_range (gd w')"
proof (cases "petHibernating (gd w)")
  case True
  with assms show ?thesis by (auto simp add: toggleTask_def)
next
  case False
  show ?thesis
  proof (cases "find (\<lambda>t. task_id t = i) (tasks w)")
    case None
    with False assms(2) show ?thesis by (simp add: toggleTask_def)
  next
    case (Some tk)
    show ?thesis
    proof (cases "completed tk")
      case True
      with False Some assms show ?thesis by (auto simp add: toggleTask_def)
    next
      case nc: False
      define w1 where "w1 = w\<lparr>tasks := markCompleted i (tasks w),
                              gd := (gd w)\<lparr>totalCompleted := totalCompleted (gd w) + 1\<rparr>\<rparr>"
      have s1: "stats_in_range (gd w1)"
        using assms(1) by (simp add: w1_def stats_in_range_def)
      have "toggleTask tz i now w =
          Inr (emit [ScheduleTaskRemoval i, SaveData]
                (checkHibernation now
                  (boostPetEnergy (feedPet (checkAchievements
                    (updateStreak tz now (addXP (task_xp tk) w1)))))))"
        using False Some nc by (simp add: toggleTask_def Let_def w1_def)
      with assms(2) have "w' = emit [ScheduleTaskRemoval i, SaveData]
                (checkHibernation now
                  (boostPetEnergy (feedPet (checkAchievements
                    (updateStreak tz now (addXP (task_xp tk) w1))))))"
        by simp
      then show ?thesis
        using s1
        by (simp add: stats_checkHibernation stats_boostPetEnergy stats_feedPet
            stats_checkAchievements stats_updateStreak stats_addXP)
    qed
  qed
qed

lemma complete_one_task:
  "\<exists>w'. toggleTask utc 7 2000 oneTaskWorld = Inr w' \<and> petEnergy (gd w') = 100
       \<and> petHunger (gd w') = 10
     \<and> totalCompleted (gd w') = 1 \<and> xp (gd w') = 50"
  by (simp add: toggleTask_def Let_def oneTaskWorld_def defaultWorld_def defaultGameData_def
      feedPet_def boostPetEnergy_def checkHibernation_def updateStreak_def addXP_def
      getXPForLevel_def)

text \<open>
  C3. When happiness, energy and hunger are all in [0,100], they are all in [0,100]
  after a decay tick (\<open>updatePetNeeds\<close>, at any time), after petting, feeding and the
  energy boost, after a level-up, after an achievement unlock, and after entering and
  leaving hibernation; also after the hibernation check, the achievement check, an XP
  award, a streak update and a task completion that returns. (The stats are exact
  rationals here.)
\<close>

theorem stats_stay_in_range:
  assumes "stats_in_range (gd w)"
  shows "stats_in_range (gd (updatePetNeeds now w))
    \<and> stats_in_range (gd (petPet now w))
    \<and> stats_in_range (gd (feedPet w))
    \<and> stats_in_range (gd (boostPetEnergy w))
    \<and> stats_in_range (gd (levelUp w))
    \<and> stats_in_range (gd (unlockAchievement a w))
    \<and> stats_in_range (gd (enterHibernation now w))
    \<and> stats_in_range (gd (wakeFromHibernation w))
    \<and> stats_in_range (gd (checkHibernation now w))
    \<and> stats_in_range (gd (checkAchievements w))
    \<and> stats_in_range (gd (addXP amount w))
    \<and> stats_in_range (gd (updateStreak tz now w))
    \<and> (\<forall>w'. toggleTask tz i now w = Inr w' \<longrightarrow> stats_in_range (gd w'))"
  using assms
  by (simp add: stats_updatePetNeeds stats_petPet stats_feedPet stats_boostPetEnergy
      stats_levelUp stats_unlockAchievement stats_enterHibernation stats_wakeFromHibernation
      stats_checkHibernation stats_checkAchievements stats_addXP stats_updateStreak
      stats_toggleTask)

theorem stats_stay_in_range_witness:
  "stats_in_range (gd (defaultWorld 1000))
   \<and> petEnergy (gd (updatePetNeeds 3601000 (defaultWorld 1000))) = 65
   \<and> stats_in_range (gd (updatePetNeeds 3601000 (defaultWorld 1000)))
   \<and> stats_in_range (gd (petPet 3601000 (defaultWorld 1000)))
   \<and> stats_in_range (gd (levelUp (defaultWorld 1000)))
   \<and> stats_in_range (gd oneTaskWorld)
   \<and> (\<exists>w'. toggleTask utc 7 2000 oneTaskWorld = Inr w' \<and> petEnergy (gd w') = 100
          \<and> stats_in_range (gd w'))"
proof -
  have h: "stats_in_range (gd (defaultWorld 1000))"
    by (simp add: stats_in_range_def defaultWorld_def defaultGameData_def)
  have k: "stats_in_range (gd oneTaskWorld)"
    by (simp add: stats_in_range_def oneTaskWorld_def defaultWorld_def defaultGameData_def)
  obtain w' where w': "toggleTask utc 7 2000 oneTaskWorld = Inr w'" "petEnergy (gd w') = 100"
    using complete_one_task by blast
  have "stats_in_range (gd w')"
    using stats_stay_in_range [OF k, where tz = utc and now = 2000 and i = 7] w'(1) by blast
  with w' have "\<exists>w'. toggleTask utc 7 2000 oneTaskWorld = Inr w' \<and> petEnergy (gd w') = 100
          \<and> stats_in_range (gd w')"
    by blast
  then show ?thesis
    using h k stats_stay_in_range [OF h, of 3601000] tick_one_hour by simp
qed

section \<open>Achievements\<close>

lemma unlocked_checkAchievement [simp]:
  "unlocked b (gd (checkAchievement a w)) = unlocked b (gd w)"
  by (simp add: unlocked_def checkAchievement_def unlockAchievement_def Let_def)

lemma achievements_checkAchievement:
  "x \<in> achievements (gd (checkAchievement a w)) \<longleftrightarrow>
     x \<in> achievements (gd w) \<or> (ach_id a = x \<and> unlocked a (gd w))"
  by (auto simp add: checkAchievement_def unlockAchievement_def Let_def)

lemma achievements_fold_checkAchievement:
  "x \<in> achievements (gd (fold checkAchievement as w)) \<longleftrightarrow>
     x \<in> achievements (gd w) \<or> (\<exists>a \<in> set as. ach_id a = x \<and> unlocked a (gd w))"
proof (induction as arbitrary: w)
  case Nil
  show ?case by simp
next
  case (Cons a as)
  show ?case
    by (auto simp add: Cons.IH achievements_checkAchievement)
qed

lemma pet_lover_row:
  "(\<exists>a \<in> set achievements_list. ach_id a = ''pet_lover'' \<and> unlocked a g)
     \<longleftrightarrow> totalCompleted g \<ge> 10"
  by (simp add: achievements_list_def unlocked_def)

lemma petPet_frame:
  "totalCompleted (gd (petPet now w)) = totalCompleted (gd w)"
  "achievements (gd (petPet now w)) = achievements (gd w)"
  "streak (gd (petPet now w)) = streak (gd w)"
  "level (gd (petPet now w)) = level (gd w)"
  by (simp_all add: petPet_def checkHibernation_def enterHibernation_def
      wakeFromHibernation_def Let_def)

text \<open>
  C10. The row \<open>pet_lover\<close> has type \<open>pet\<close>, which is neither \<open>streak\<close> nor \<open>level\<close>, so
  \<open>checkAchievements\<close> compares \<open>totalCompleted\<close> with its requirement 10: a locked
  \<open>pet_lover\<close> is unlocked by the check exactly when \<open>totalCompleted\<close> is at least 10.
  Petting changes neither \<open>totalCompleted\<close> nor the unlocked set (\<open>gameData\<close> has no
  petting counter), so whether the check unlocks \<open>pet_lover\<close> is the same before and
  after any petting.
\<close>

theorem pet_lover_unlocks_on_totalCompleted:
  "(''pet_lover'' \<notin> achievements (gd w) \<longrightarrow>
      (''pet_lover'' \<in> achievements (gd (checkAchievements w)) \<longleftrightarrow> totalCompleted (gd w) \<ge> 10))
   \<and> totalCompleted (gd (petPet now w)) = totalCompleted (gd w)
   \<and> achievements (gd (petPet now w)) = achievements (gd w)
   \<and> (''pet_lover'' \<in> achievements (gd (checkAchievements (petPet now w)))
        \<longleftrightarrow> ''pet_lover'' \<in> achievements (gd (checkAchievements w)))"
  by (simp add: checkAchievements_def achievements_fold_checkAchievement pet_lover_row
      petPet_frame)

theorem pet_lover_unlocks_on_totalCompleted_witness:
  "''pet_lover'' \<notin> achievements (gd tenTasksWorld)
   \<and> totalCompleted (gd tenTasksWorld) \<ge> 10
   \<and> ''pet_lover'' \<in> achievements (gd (checkAchievements tenTasksWorld))
   \<and> ''pet_lover'' \<notin> achievements (gd (defaultWorld 1000))
   \<and> ''pet_lover'' \<notin> achievements (gd (checkAchievements (petPet 20000 (defaultWorld 1000))))"
  using pet_lover_unlocks_on_totalCompleted [of tenTasksWorld]
    pet_lover_unlocks_on_totalCompleted [of "defaultWorld 1000" 20000]
  by (simp add: tenTasksWorld_def defaultWorld_def defaultGameData_def)

section \<open>Task ids that are not in the list\<close>







end
